theory Spec2Isabelle
  imports Complex_Main
begin

section \<open>Numbers\<close>

text \<open>
  Python's \<open>float\<close> is modelled by \<^typ>\<open>real\<close>: every arithmetic operation is the exact
  one, so the development speaks about the formulas of the program and not about the
  rounding error of binary floating point. Python's \<open>int\<close> is \<^typ>\<open>int\<close>.

  \<open>round(x, n)\<close> rounds to \<open>n\<close> decimal places, a tie going to the even neighbour.
  Where the exact value is such a tie, or next to one, the doubles of the program can
  give the other neighbour: a statement that fixes the last digit of a rounded amount
  holds of the formulas, and of the program away from ties.
\<close>

definition py_round :: "real \<Rightarrow> int" where
  "py_round x =
     (let f = \<lfloor>x\<rfloor>; d = x - of_int f
      in if d < 1 / 2 then f
         else if 1 / 2 < d then f + 1
         else if even f then f else f + 1)"

definition round_nd :: "real \<Rightarrow> nat \<Rightarrow> real" where
  "round_nd x n = of_int (py_round (x * 10 ^ n)) / 10 ^ n"

text \<open>\<open>d.get(k, default)\<close> on a dictionary given as an association list.\<close>

definition dict_get :: "('k \<times> 'v) list \<Rightarrow> 'k \<Rightarrow> 'v \<Rightarrow> 'v" where
  "dict_get d k dflt = (case map_of d k of None \<Rightarrow> dflt | Some v \<Rightarrow> v)"

text \<open>\<open>d[k]\<close> for a key that the table holds (every use below names a literal key).\<close>

definition dict_item :: "('k \<times> 'v) list \<Rightarrow> 'k \<Rightarrow> 'v" where
  "dict_item d k = the (map_of d k)"

text \<open>\<open>o.get(k, default)\<close> where the entry of key \<open>k\<close> is an optional field.\<close>

definition get_or :: "'a option \<Rightarrow> 'a \<Rightarrow> 'a" where
  "get_or v dflt = (case v of None \<Rightarrow> dflt | Some x \<Rightarrow> x)"

text \<open>The truth value of \<open>o.get(k)\<close>: an absent key gives \<open>None\<close>, which is false.\<close>

definition truthy :: "bool option \<Rightarrow> bool" where
  "truthy v = (v = Some True)"

text \<open>The exceptions that the modelled code can raise.\<close>

datatype py_exception = TypeError | IndexError

section \<open>The detailed calculator: \<open>services/budget_calculator.py\<close>\<close>

subsection \<open>Catalogs\<close>

text \<open>
  Of each catalog entry only the column that the calculation reads is kept: the price of a
  material, the multiplier of a finish, the base price of a supplier. Characters outside
  ASCII are written as their UTF-8 bytes.
\<close>

definition MATERIAL_PRICES :: "(string \<times> real) list" where
  "MATERIAL_PRICES =
     [(''H13'', 0.85), (''P20'', 0.65), (''718'', 0.75), (''ALUMINUM'', 0.45), (''S7'', 0.70)]"

definition FINISH_MULTIPLIERS :: "(string \<times> real) list" where
  "FINISH_MULTIPLIERS =
     [(''machined'', 1.0), (''ground'', 1.3), (''polished'', 1.5), (''textured'', 1.8),
      (''edm'', 2.2)]"

definition BASE_FIXED_FEE :: real where
  "BASE_FIXED_FEE = 2500.0"

definition MOLD_BASE_EXTRAS :: "(string \<times> real) list" where
  "MOLD_BASE_EXTRAS =
     [(''HOT_RUNNER'', 3500.0), (''CONFORMAL_COOLING'', 5000.0), (''DOUBLE_EXTRACTION'', 1500.0),
      (''LIFTING_HOLES'', 300.0), (''INSULATION'', 800.0)]"

definition CAD_MOLD_BASE_PRICES :: "(string \<times> real) list" where
  "CAD_MOLD_BASE_PRICES =
     [(''HASCO Standard'', 3500), (''HASCO Premium'', 4500), (''DME Standard'', 3200),
      (''DME Premium'', 4200), (''FUTABA Standard'', 3000), (''FUTABA Premium'', 4000)]"

definition aco :: string where
  "aco = [CHR ''A'', CHR 0xC3, CHR 0xA7, CHR ''o'']"

definition aluminio :: string where
  "aluminio = ''Alum'' @ [CHR 0xC3, CHR 0xAD] @ ''nio''"

definition PLATE_MATERIAL_ADDONS :: "(string \<times> real) list" where
  "PLATE_MATERIAL_ADDONS =
     [(aco @ '' 1.1730 (C45W)'', 0), (aco @ '' 1.2311 (P20)'', 200),
      (aco @ '' 1.2312 (P20+S)'', 350), (aco @ '' 1.2344 (H13)'', 800),
      (aluminio @ '' 7075'', - 500), (aco @ '' 1.2767 (H13 Mod)'', 1200)]"

definition HOURLY_RATES :: "(string \<times> real) list" where
  "HOURLY_RATES =
     [(''cnc3Axis'', 55.0), (''cnc5Axis'', 85.0), (''edm'', 75.0), (''finishing'', 45.0),
      (''assembly'', 50.0), (''quality'', 60.0)]"

subsection \<open>Inputs and outputs\<close>

text \<open>
  The dictionaries that \<open>calculate\<close> receives, with the keys that it reads. A key that the
  dictionary does not hold is \<open>None\<close>.
\<close>

record complexity_dict =
  cd_complexity_score :: "real option"

record manufacturing_dict =
  md_process_recommendations :: "string list option"

record stats_dict =
  sd_volume :: "real option"
  sd_complexity_metrics :: "complexity_dict option"
  sd_manufacturing_analysis :: "manufacturing_dict option"

record cad_base_dict =
  supplier :: "string option"
  plateMaterial :: "string option"
  insulationPlates :: "bool option"
  liftingHoles :: "bool option"
  cad_other_keys :: bool

record mold_base_dict =
  plateWidth :: "real option"
  plateLength :: "real option"
  hotRunner :: "bool option"
  conformalCooling :: "bool option"
  doubleExtraction :: "bool option"
  mold_other_keys :: bool

text \<open>
  \<open>if config:\<close> holds for a dictionary that is neither \<open>None\<close> nor empty. A
  dictionary can hold keys that \<open>calculate\<close> does not read: \<open>cad_other_keys\<close> and
  \<open>mold_other_keys\<close> say whether it holds one.
\<close>

definition cad_nonempty :: "cad_base_dict option \<Rightarrow> bool" where
  "cad_nonempty c =
     (case c of None \<Rightarrow> False
      | Some d \<Rightarrow> supplier d \<noteq> None \<or> plateMaterial d \<noteq> None \<or> insulationPlates d \<noteq> None
          \<or> liftingHoles d \<noteq> None \<or> cad_other_keys d)"

definition mold_nonempty :: "mold_base_dict option \<Rightarrow> bool" where
  "mold_nonempty c =
     (case c of None \<Rightarrow> False
      | Some d \<Rightarrow> plateWidth d \<noteq> None \<or> plateLength d \<noteq> None \<or> hotRunner d \<noteq> None
          \<or> conformalCooling d \<noteq> None \<or> doubleExtraction d \<noteq> None
          \<or> mold_other_keys d)"

text \<open>
  The result of \<open>calculate\<close>. The entries \<open>discount_percent\<close>, \<open>material_info\<close> and
  \<open>finish_info\<close> only format or copy catalog data and are left out.
\<close>

record breakdown_dict =
  bd_material_cost :: real
  bd_processing_cost :: real
  bd_mold_base_cost :: real
  bd_setup_fee :: real
  bd_subtotal :: real
  bd_discount_amount :: real
  bd_quantity :: int
  price_per_piece :: real

record budget =
  total_price :: real
  breakdown :: breakdown_dict
  material_cost :: real
  processing_cost :: real
  mold_base_cost :: real
  setup_fee :: real
  discount :: real
  final_price :: real
  manufacturing_recommendations :: "string list"

subsection \<open>The cost components\<close>

definition calculate_material_cost :: "real \<Rightarrow> string \<Rightarrow> real" where
  "calculate_material_cost volume material =
     (let price_per_cm3 = dict_get MATERIAL_PRICES material (dict_item MATERIAL_PRICES ''P20'');
          gross_volume = volume * 1.15
      in gross_volume * price_per_cm3)"

definition calculate_processing_cost ::
  "real \<Rightarrow> string \<Rightarrow> string \<Rightarrow> complexity_dict \<Rightarrow> manufacturing_dict \<Rightarrow> real" where
  "calculate_processing_cost volume material finish complexity manufacturing =
     (let base_rate = 0.5;
          complexity_factor = get_or (cd_complexity_score complexity) 50 / 50;
          machining_minutes = volume * base_rate * (1 + complexity_factor * 0.5);
          hourly_rate =
            (if complexity_factor > 0.7 then dict_item HOURLY_RATES ''cnc5Axis''
             else if complexity_factor > 0.4 then dict_item HOURLY_RATES ''cnc3Axis''
             else dict_item HOURLY_RATES ''cnc3Axis'' * 0.9);
          machining_cost = (machining_minutes / 60) * hourly_rate;
          finish_multiplier =
            dict_get FINISH_MULTIPLIERS finish (dict_item FINISH_MULTIPLIERS ''machined'');
          finish_cost = machining_cost * (finish_multiplier - 1) * 0.3;
          edm_cost =
            (if finish = ''edm'' \<or> complexity_factor > 0.8
             then ((volume * 0.2) / 60) * dict_item HOURLY_RATES ''edm'' else 0);
          finishing_minutes = volume * 0.1 * finish_multiplier;
          finishing_cost = (finishing_minutes / 60) * dict_item HOURLY_RATES ''finishing'';
          assembly_hours = 8 + complexity_factor * 4;
          assembly_cost = assembly_hours * dict_item HOURLY_RATES ''assembly'';
          qa_hours = 4 + complexity_factor * 2;
          qa_cost = qa_hours * dict_item HOURLY_RATES ''quality''
      in machining_cost + finish_cost + edm_cost + finishing_cost + assembly_cost + qa_cost)"

definition calculate_mold_base_cost ::
  "mold_base_dict option \<Rightarrow> cad_base_dict option \<Rightarrow> real" where
  "calculate_mold_base_cost mold_base_config cad_base_config =
     (if cad_nonempty cad_base_config then
        (let c = the cad_base_config;
             sup = get_or (supplier c) ''HASCO Standard'';
             cost1 = 0 + dict_get CAD_MOLD_BASE_PRICES sup
                       (dict_item CAD_MOLD_BASE_PRICES ''HASCO Standard'');
             plate_material = get_or (plateMaterial c) (aco @ '' 1.1730 (C45W)'');
             cost2 = cost1 + dict_get PLATE_MATERIAL_ADDONS plate_material 0;
             cost3 = (if truthy (insulationPlates c)
                      then cost2 + dict_item MOLD_BASE_EXTRAS ''INSULATION'' else cost2);
             cost4 = (if truthy (liftingHoles c)
                      then cost3 + dict_item MOLD_BASE_EXTRAS ''LIFTING_HOLES'' else cost3)
         in cost4)
      else if mold_nonempty mold_base_config then
        (let c = the mold_base_config;
             width = get_or (plateWidth c) 296;
             length = get_or (plateLength c) 296;
             base_cost = (width * length) / 10000 * 400;
             cost1 = 0 + base_cost;
             cost2 = (if truthy (hotRunner c)
                      then cost1 + dict_item MOLD_BASE_EXTRAS ''HOT_RUNNER'' else cost1);
             cost3 = (if truthy (conformalCooling c)
                      then cost2 + dict_item MOLD_BASE_EXTRAS ''CONFORMAL_COOLING'' else cost2);
             cost4 = (if truthy (doubleExtraction c)
                      then cost3 + dict_item MOLD_BASE_EXTRAS ''DOUBLE_EXTRACTION'' else cost3)
         in cost4)
      else 3000)"

definition calculate_setup_fee :: "mold_base_dict option \<Rightarrow> real" where
  "calculate_setup_fee mold_base_config =
     (if mold_nonempty mold_base_config \<and> truthy (conformalCooling (the mold_base_config))
      then BASE_FIXED_FEE + 1500 else BASE_FIXED_FEE)"

definition calculate_discount :: "int \<Rightarrow> real" where
  "calculate_discount quantity =
     (if quantity \<ge> 100 then 0.15
      else if quantity \<ge> 50 then 0.10
      else if quantity \<ge> 10 then 0.05
      else 0.0)"

subsection \<open>\<open>BudgetCalculator.calculate\<close>\<close>

text \<open>
  The local variable \<open>subtotal\<close> of \<open>calculate\<close>, before any rounding.
\<close>

definition calculate_subtotal ::
  "stats_dict \<Rightarrow> string \<Rightarrow> string \<Rightarrow> mold_base_dict option \<Rightarrow> cad_base_dict option \<Rightarrow> real" where
  "calculate_subtotal stats material finish mold_base_config cad_base_config =
     (let volume = get_or (sd_volume stats) 100;
          complexity = get_or (sd_complexity_metrics stats) \<lparr>cd_complexity_score = None\<rparr>;
          manufacturing =
            get_or (sd_manufacturing_analysis stats) \<lparr>md_process_recommendations = None\<rparr>
      in calculate_material_cost volume material
         + calculate_processing_cost volume material finish complexity manufacturing
         + calculate_mold_base_cost mold_base_config cad_base_config
         + calculate_setup_fee mold_base_config)"

text \<open>
  The body of the \<open>try\<close> block, for a call in which every entry that a dictionary
  holds has a value of the type the code computes with (a number, a dictionary, a list,
  a truth value) and the quantity is within the range of a double. No statement raises
  then, so the handler, which logs and raises again, has nothing to pass on and the
  result is \<open>Inr\<close>. Calls outside this range are not modelled: an entry that holds
  \<open>None\<close> raises \<open>TypeError\<close> or \<open>AttributeError\<close> where it is first used, and a
  quantity too large for a double raises \<open>OverflowError\<close> in the division.
\<close>

definition calculate ::
  "stats_dict \<Rightarrow> string \<Rightarrow> string \<Rightarrow> int \<Rightarrow> mold_base_dict option \<Rightarrow> cad_base_dict option
     \<Rightarrow> py_exception + budget" where
  "calculate stats material finish quantity mold_base_config cad_base_config =
     (let volume = get_or (sd_volume stats) 100;
          complexity = get_or (sd_complexity_metrics stats) \<lparr>cd_complexity_score = None\<rparr>;
          manufacturing =
            get_or (sd_manufacturing_analysis stats) \<lparr>md_process_recommendations = None\<rparr>;
          material_cost = calculate_material_cost volume material;
          processing_cost =
            calculate_processing_cost volume material finish complexity manufacturing;
          mold_base_cost = calculate_mold_base_cost mold_base_config cad_base_config;
          setup_fee = calculate_setup_fee mold_base_config;
          subtotal = material_cost + processing_cost + mold_base_cost + setup_fee;
          discount = calculate_discount quantity;
          discount_amount = subtotal * discount;
          total_price0 = subtotal - discount_amount;
          total_price = round_nd total_price0 2;
          breakdown =
            \<lparr>bd_material_cost = round_nd material_cost 2,
             bd_processing_cost = round_nd processing_cost 2,
             bd_mold_base_cost = round_nd mold_base_cost 2,
             bd_setup_fee = round_nd setup_fee 2,
             bd_subtotal = round_nd subtotal 2,
             bd_discount_amount = round_nd discount_amount 2,
             bd_quantity = quantity,
             price_per_piece =
               (if quantity > 0 then round_nd (total_price / of_int quantity) 2 else 0)\<rparr>
      in Inr \<lparr>total_price = total_price,
              breakdown = breakdown,
              material_cost = material_cost,
              processing_cost = processing_cost,
              mold_base_cost = mold_base_cost,
              setup_fee = setup_fee,
              discount = discount,
              final_price = total_price,
              manufacturing_recommendations =
                get_or (md_process_recommendations manufacturing) []\<rparr>)"

subsection \<open>The price of a piece\<close>

text \<open>
  The entry \<open>price_per_piece\<close> of the breakdown, as a function of the subtotal and the
  quantity: the total is rounded first, then divided, then rounded again.
\<close>

definition unit_price :: "real \<Rightarrow> int \<Rightarrow> real" where
  "unit_price s q =
     (if q > 0 then round_nd (round_nd (s - s * calculate_discount q) 2 / of_int q) 2 else 0)"

text \<open>Two statistics dictionaries: an empty one, and one of a mesh turned inside out.\<close>

definition no_stats :: stats_dict where
  "no_stats =
     \<lparr>sd_volume = None, sd_complexity_metrics = None, sd_manufacturing_analysis = None\<rparr>"

definition inverted_stats :: stats_dict where
  "inverted_stats =
     \<lparr>sd_volume = Some (- 3025), sd_complexity_metrics = None,
      sd_manufacturing_analysis = None\<rparr>"

section \<open>The simple pricing path: \<open>calculate_budget_from_stats\<close> of \<open>main.py\<close>\<close>


text \<open>The local variable \<open>quantity_discount\<close>: the multiplier chosen by the quantity.\<close>

definition quantity_discount :: "int \<Rightarrow> real" where
  "quantity_discount quantity =
     (if quantity \<ge> 100 then 0.85
      else if quantity \<ge> 50 then 0.90
      else if quantity \<ge> 10 then 0.95
      else 1.0)"









section \<open>The geometry analyzer: \<open>services/geometry_analyzer.py\<close>\<close>

subsection \<open>The mesh\<close>

text \<open>
  A \<open>trimesh.Trimesh\<close> is given by the values of the attributes that the analyzer
  reads. The library computes them from the vertices and the faces; here they are data.
  \<open>bounds\<close> is \<open>None\<close> for a mesh in which no face refers to a vertex, and the two
  corners of the bounding box otherwise. A face holds three indices into \<open>vertices\<close>.
\<close>

type_synonym vec3 = "real \<times> real \<times> real"

record mesh =
  vertices :: "vec3 list"
  faces :: "(int \<times> int \<times> int) list"
  mesh_volume :: real
  mesh_area :: real
  bounds :: "(vec3 \<times> vec3) option"
  centroid :: vec3
  is_watertight :: bool
  moment_inertia :: "real list list"

definition vsub :: "vec3 \<Rightarrow> vec3 \<Rightarrow> vec3" where
  "vsub a b = (case (a, b) of ((x1, y1, z1), (x2, y2, z2)) \<Rightarrow> (x1 - x2, y1 - y2, z1 - z2))"

definition vadd :: "vec3 \<Rightarrow> vec3 \<Rightarrow> vec3" where
  "vadd a b = (case (a, b) of ((x1, y1, z1), (x2, y2, z2)) \<Rightarrow> (x1 + x2, y1 + y2, z1 + z2))"

definition vhalf :: "vec3 \<Rightarrow> vec3" where
  "vhalf a = (case a of (x, y, z) \<Rightarrow> (x / 2, y / 2, z / 2))"

text \<open>\<open>np.linalg.norm\<close> of a vector of three components.\<close>

definition norm3 :: "vec3 \<Rightarrow> real" where
  "norm3 a = (case a of (x, y, z) \<Rightarrow> sqrt (x * x + y * y + z * z))"

text \<open>
  Indexing an array: a negative index counts from the end, an index out of range raises
  \<open>IndexError\<close>.
\<close>

definition np_index :: "'a list \<Rightarrow> int \<Rightarrow> py_exception + 'a" where
  "np_index xs i =
     (if 0 \<le> i \<and> i < int (length xs) then Inr (xs ! nat i)
      else if - int (length xs) \<le> i \<and> i < 0 then Inr (xs ! nat (int (length xs) + i))
      else Inl IndexError)"

text \<open>\<open>v0, v1, v2 = mesh.vertices[face]\<close>\<close>

definition face_vertices ::
  "vec3 list \<Rightarrow> int \<times> int \<times> int \<Rightarrow> py_exception + vec3 \<times> vec3 \<times> vec3" where
  "face_vertices vs face =
     (case face of (a, b, c) \<Rightarrow>
        (case np_index vs a of
           Inl e \<Rightarrow> Inl e
         | Inr v0 \<Rightarrow>
             (case np_index vs b of
                Inl e \<Rightarrow> Inl e
              | Inr v1 \<Rightarrow>
                  (case np_index vs c of
                     Inl e \<Rightarrow> Inl e
                   | Inr v2 \<Rightarrow> Inr (v0, v1, v2)))))"

subsection \<open>The result\<close>

text \<open>The four ratings: \<open>Baixa\<close>, \<open>Media\<close>, \<open>Alta\<close>, \<open>Muito Alta\<close>.\<close>

datatype difficulty = Baixa | Media | Alta | Muito_Alta

record dimensions_dict =
  width :: real
  height :: real
  depth :: real
  dim_max :: real
  dim_min :: real

record bounding_box_dict =
  bb_min :: vec3
  bb_max :: vec3
  bb_center :: vec3
  bb_size :: vec3

record complexity_result =
  surface_volume_ratio :: real
  compactness :: real
  triangle_density :: real
  average_aspect_ratio :: real
  complexity_score :: real
  difficulty_rating :: difficulty

subsection \<open>The helpers\<close>

text \<open>
  \<open>_calculate_inertia\<close>. Neither branch raises on the attributes as given, so the
  handler, which returns the zero matrix, is not reached.
\<close>

definition calculate_inertia :: "mesh \<Rightarrow> real \<Rightarrow> real list list" where
  "calculate_inertia m volume =
     (if volume > 0 then moment_inertia m
      else [[1.0, 0.0, 0.0], [0.0, 1.0, 0.0], [0.0, 0.0, 1.0]])"

definition get_difficulty_rating :: "real \<Rightarrow> difficulty" where
  "get_difficulty_rating score =
     (if score < 25 then Baixa
      else if score < 50 then Media
      else if score < 75 then Alta
      else Muito_Alta)"

text \<open>The local variables of \<open>_calculate_complexity\<close>, in the order of the source.\<close>

definition surface_volume_ratio_of :: "real \<Rightarrow> real \<Rightarrow> real" where
  "surface_volume_ratio_of volume area = (if volume > 0 then area / volume else 0)"

definition dimension_values :: "dimensions_dict \<Rightarrow> real list" where
  "dimension_values d = [width d, height d, depth d, dim_max d, dim_min d]"

definition compactness_of :: "dimensions_dict \<Rightarrow> real" where
  "compactness_of d =
     (let max_dim = Max (set (dimension_values d));
          min_dim = Min (set (dimension_values d))
      in if max_dim > 0 then min_dim / max_dim else 0)"

definition triangle_density_of :: "mesh \<Rightarrow> real \<Rightarrow> real" where
  "triangle_density_of m area = (if area > 0 then real (length (faces m)) / area else 0)"

definition face_aspect_ratio :: "vec3 \<times> vec3 \<times> vec3 \<Rightarrow> real" where
  "face_aspect_ratio t =
     (case t of (v0, v1, v2) \<Rightarrow>
        (let edges = [norm3 (vsub v1 v0), norm3 (vsub v2 v1), norm3 (vsub v0 v2)]
         in if Min (set edges) > 0 then Max (set edges) / Min (set edges) else 1))"

text \<open>The loop over the faces, which ends at the first face that raises.\<close>

fun aspect_ratios ::
  "vec3 list \<Rightarrow> (int \<times> int \<times> int) list \<Rightarrow> py_exception + real list" where
  "aspect_ratios vs [] = Inr []"
| "aspect_ratios vs (face # fs) =
     (case face_vertices vs face of
        Inl e \<Rightarrow> Inl e
      | Inr t \<Rightarrow>
          (case aspect_ratios vs fs of
             Inl e \<Rightarrow> Inl e
           | Inr rs \<Rightarrow> Inr (face_aspect_ratio t # rs)))"

definition avg_aspect_ratio_of :: "real list \<Rightarrow> real" where
  "avg_aspect_ratio_of rs = (if rs \<noteq> [] then sum_list rs / real (length rs) else 1)"

definition complexity_score_of :: "real \<Rightarrow> real \<Rightarrow> real \<Rightarrow> real \<Rightarrow> real" where
  "complexity_score_of svr cpt dens avg =
     min 100 (svr * 10 + (1 - cpt) * 50 + dens * 0.001 + (avg - 1) * 10)"

text \<open>
  The local variable \<open>complexity_score\<close>, which is the score before it is rounded for the
  result; the loop over the faces may raise before it is assigned.
\<close>

definition unrounded_score ::
  "mesh \<Rightarrow> real \<Rightarrow> real \<Rightarrow> dimensions_dict \<Rightarrow> py_exception + real" where
  "unrounded_score m volume area d =
     (case aspect_ratios (vertices m) (faces m) of
        Inl e \<Rightarrow> Inl e
      | Inr rs \<Rightarrow>
          Inr (complexity_score_of (surface_volume_ratio_of volume area) (compactness_of d)
                 (triangle_density_of m area) (avg_aspect_ratio_of rs)))"

text \<open>\<open>_calculate_complexity\<close>: any exception of the body gives the fixed default.\<close>

definition calculate_complexity ::
  "mesh \<Rightarrow> real \<Rightarrow> real \<Rightarrow> dimensions_dict \<Rightarrow> complexity_result" where
  "calculate_complexity m volume area d =
     (let surface_volume_ratio = surface_volume_ratio_of volume area;
          compactness = compactness_of d;
          triangle_density = triangle_density_of m area
      in case aspect_ratios (vertices m) (faces m) of
           Inl e \<Rightarrow>
             \<lparr>surface_volume_ratio = 0, compactness = 1, triangle_density = 0,
              average_aspect_ratio = 1, complexity_score = 50, difficulty_rating = Media\<rparr>
         | Inr rs \<Rightarrow>
             (let avg_aspect_ratio = avg_aspect_ratio_of rs;
                  complexity_score =
                    complexity_score_of surface_volume_ratio compactness triangle_density
                      avg_aspect_ratio
              in \<lparr>surface_volume_ratio = round_nd surface_volume_ratio 4,
                  compactness = round_nd compactness 4,
                  triangle_density = round_nd triangle_density 4,
                  average_aspect_ratio = round_nd avg_aspect_ratio 4,
                  complexity_score = round_nd complexity_score 2,
                  difficulty_rating = get_difficulty_rating complexity_score\<rparr>))"

subsection \<open>\<open>GeometryAnalyzer.analyze\<close>\<close>

definition dimensions_of :: "vec3 \<times> vec3 \<Rightarrow> dimensions_dict" where
  "dimensions_of b =
     (case b of ((x0, y0, z0), (x1, y1, z1)) \<Rightarrow>
        \<lparr>width = x1 - x0, height = y1 - y0, depth = z1 - z0,
         dim_max = Max {x1 - x0, y1 - y0, z1 - z0},
         dim_min = Min {x1 - x0, y1 - y0, z1 - z0}\<rparr>)"

text \<open>
  The statistics that \<open>analyze\<close> returns. The entries \<open>mesh_info\<close>, \<open>thickness_analysis\<close>,
  \<open>curvature\<close> and \<open>manufacturing_analysis\<close> are left out: no entry below is computed
  from them.
\<close>

record analysis =
  volume :: real
  area :: real
  dimensions :: dimensions_dict
  center_of_mass :: vec3
  inertia_tensor :: "real list list"
  bounding_box :: bounding_box_dict
  complexity_metrics :: complexity_result

text \<open>
  Subscripting \<open>bounds\<close> when it is \<open>None\<close> raises \<open>TypeError\<close>; the handler of
  \<open>analyze\<close> logs the exception and raises it again.
\<close>

definition analyze :: "mesh \<Rightarrow> py_exception + analysis" where
  "analyze m =
     (let volume = (if is_watertight m then mesh_volume m else 0.0);
          area = mesh_area m
      in case bounds m of
           None \<Rightarrow> Inl TypeError
         | Some b \<Rightarrow>
             (let dimensions = dimensions_of b;
                  center_of_mass = centroid m;
                  inertia_tensor = calculate_inertia m volume;
                  bounding_box =
                    \<lparr>bb_min = fst b, bb_max = snd b,
                     bb_center = vhalf (vadd (fst b) (snd b)),
                     bb_size = vsub (snd b) (fst b)\<rparr>;
                  complexity_metrics = calculate_complexity m volume area dimensions
              in Inr \<lparr>volume = volume, area = area, dimensions = dimensions,
                      center_of_mass = center_of_mass, inertia_tensor = inertia_tensor,
                      bounding_box = bounding_box,
                      complexity_metrics = complexity_metrics\<rparr>))"

text \<open>
  A valid mesh has a bounding box, and every index of a face is in range (the invariant
  of a mesh in the specification).
\<close>

definition index_ok :: "mesh \<Rightarrow> int \<Rightarrow> bool" where
  "index_ok m i = (0 \<le> i \<and> i < int (length (vertices m)))"

definition valid_mesh :: "mesh \<Rightarrow> bool" where
  "valid_mesh m =
     (bounds m \<noteq> None
      \<and> list_all (\<lambda>(a, b, c). index_ok m a \<and> index_ok m b \<and> index_ok m c) (faces m))"

text \<open>The clamp of the specification.\<close>

definition clamp :: "real \<Rightarrow> real \<Rightarrow> real \<Rightarrow> real" where
  "clamp lo hi x = max lo (min hi x)"

subsection \<open>Two meshes\<close>

text \<open>
  A closed box of 44 by 117 by 240 with two triangles on each side; the diagonals of
  its sides are 125, 244 and 267, so every edge of the mesh has an integer length.
\<close>

definition brick :: mesh where
  "brick =
     \<lparr>vertices = [(0, 0, 0), (44, 0, 0), (44, 117, 0), (0, 117, 0),
                  (0, 0, 240), (44, 0, 240), (44, 117, 240), (0, 117, 240)],
      faces = [(0, 2, 1), (0, 3, 2), (4, 5, 6), (4, 6, 7), (0, 1, 5), (0, 5, 4),
               (3, 7, 6), (3, 6, 2), (0, 4, 7), (0, 7, 3), (1, 2, 6), (1, 6, 5)],
      mesh_volume = 1235520,
      mesh_area = 87576,
      bounds = Some ((0, 0, 0), (44, 117, 240)),
      centroid = (22, 58.5, 120),
      is_watertight = True,
      moment_inertia = [[7339915440, 0, 0], [0, 6129826560, 0], [0, 0, 1608750000]]\<rparr>"

text \<open>
  An open flat plate of 23042 by 77280 made of two triangles; its diagonal is 80642.
\<close>

definition plate :: mesh where
  "plate =
     \<lparr>vertices = [(0, 0, 0), (23042, 0, 0), (23042, 77280, 0), (0, 77280, 0)],
      faces = [(0, 1, 2), (0, 2, 3)],
      mesh_volume = 0,
      mesh_area = 1780685760,
      bounds = Some ((0, 0, 0), (23042, 77280, 0)),
      centroid = (11521, 38640, 0),
      is_watertight = False,
      moment_inertia = [[0, 0, 0], [0, 0, 0], [0, 0, 0]]\<rparr>"

section \<open>Rounding\<close>

lemma py_round_lower: "x - 1 / 2 \<le> of_int (py_round x)"
  unfolding py_round_def Let_def by (simp; linarith)

lemma py_round_upper: "of_int (py_round x) \<le> x + 1 / 2"
  unfolding py_round_def Let_def by (simp; linarith)

lemma py_round_mono:
  assumes "x \<le> y"
  shows "py_round x \<le> py_round y"
proof (cases "\<lfloor>x\<rfloor> = \<lfloor>y\<rfloor>")
  case True
  then show ?thesis
    using assms unfolding py_round_def Let_def by auto
next
  case False
  moreover have "\<lfloor>x\<rfloor> \<le> \<lfloor>y\<rfloor>"
    using assms by (rule floor_mono)
  ultimately have "\<lfloor>x\<rfloor> + 1 \<le> \<lfloor>y\<rfloor>"
    by simp
  moreover have "py_round x \<le> \<lfloor>x\<rfloor> + 1"
    unfolding py_round_def Let_def by simp
  moreover have "\<lfloor>y\<rfloor> \<le> py_round y"
    unfolding py_round_def Let_def by simp
  ultimately show ?thesis
    by linarith
qed

lemma py_round_of_int: "py_round (of_int n) = n"
  unfolding py_round_def Let_def by simp

lemma round_nd_mono:
  assumes "x \<le> y"
  shows "round_nd x n \<le> round_nd y n"
proof -
  from assms have "x * 10 ^ n \<le> y * 10 ^ n"
    by simp
  then have "py_round (x * 10 ^ n) \<le> py_round (y * 10 ^ n)"
    by (rule py_round_mono)
  then show ?thesis
    unfolding round_nd_def by (simp add: divide_right_mono)
qed

lemma round_nd_2_lower: "x - 5 / 1000 \<le> round_nd x 2"
  using py_round_lower [of "x * 100"] unfolding round_nd_def by simp

lemma round_nd_2_upper: "round_nd x 2 \<le> x + 5 / 1000"
  using py_round_upper [of "x * 100"] unfolding round_nd_def by simp

lemma round_nd_of_int: "round_nd (of_int k) n = of_int k"
proof -
  have "of_int k * (10::real) ^ n = of_int (k * 10 ^ n)"
    by simp
  then have "py_round (of_int k * 10 ^ n) = k * 10 ^ n"
    using py_round_of_int by presburger
  then show ?thesis
    by (simp add: round_nd_def)
qed

lemma round_nd_zero: "round_nd 0 n = 0"
  using round_nd_of_int [of 0 n] by simp

lemma round_nd_nonneg: "0 \<le> x \<Longrightarrow> 0 \<le> round_nd x n"
  using round_nd_mono [of 0 x n] by (simp add: round_nd_zero)

text \<open>Two values more than a cent apart are rounded to different cents.\<close>

lemma round_nd_2_gap: "y + 1 / 100 < x \<Longrightarrow> round_nd y 2 < round_nd x 2"
  using round_nd_2_upper [of y] round_nd_2_lower [of x] by linarith

text \<open>
  Rounding does not cross a whole number: away from it, a value and its rounding are on
  the same side.
\<close>

lemma round_nd_threshold:
  assumes "round_nd s n \<noteq> of_int t"
  shows "s < of_int t \<longleftrightarrow> round_nd s n < of_int t"
proof
  assume "s < of_int t"
  then have "round_nd s n \<le> round_nd (of_int t) n"
    by (intro round_nd_mono) simp
  then show "round_nd s n < of_int t"
    using assms by (simp add: round_nd_of_int)
next
  assume r: "round_nd s n < of_int t"
  show "s < of_int t"
  proof (rule ccontr)
    assume "\<not> s < of_int t"
    then have "round_nd (of_int t) n \<le> round_nd s n"
      by (intro round_nd_mono) simp
    then show False
      using r by (simp add: round_nd_of_int)
  qed
qed

section \<open>The quantity discount\<close>

text \<open>
  C2. For every integer quantity the detailed calculator takes its discount rate from the
  quantity alone: 15% from 100 pieces on, 10% from 50 to 99, 5% from 10 to 49 and nothing
  below 10; so 10 pieces give exactly 5%, 9 pieces give 0% and 100 pieces give 15%.
\<close>

theorem discount_step_function:
  "(quantity \<ge> 100 \<longrightarrow> calculate_discount quantity = 15 / 100)
   \<and> (50 \<le> quantity \<and> quantity < 100 \<longrightarrow> calculate_discount quantity = 10 / 100)
   \<and> (10 \<le> quantity \<and> quantity < 50 \<longrightarrow> calculate_discount quantity = 5 / 100)
   \<and> (quantity < 10 \<longrightarrow> calculate_discount quantity = 0)
   \<and> calculate_discount 10 = 5 / 100
   \<and> calculate_discount 9 = 0
   \<and> calculate_discount 100 = 15 / 100"
  by (simp add: calculate_discount_def)

theorem discount_step_function_witness:
  "(100::int) \<le> 250 \<and> calculate_discount 250 = 15 / 100
   \<and> (50::int) \<le> 75 \<and> (75::int) < 100 \<and> calculate_discount 75 = 10 / 100
   \<and> (10::int) \<le> 20 \<and> (20::int) < 50 \<and> calculate_discount 20 = 5 / 100
   \<and> (3::int) < 10 \<and> calculate_discount 3 = 0
   \<and> (- 4::int) < 10 \<and> calculate_discount (- 4) = 0"
  using discount_step_function [of 250] discount_step_function [of 75]
    discount_step_function [of 20] discount_step_function [of 3]
    discount_step_function [of "- 4"]
  by simp

text \<open>
  C9. For every integer quantity the multiplier of the simple pricing path is one minus
  the discount rate of the detailed calculator: the two tier tables agree tier by tier.
\<close>

theorem quantity_discount_is_complement:
  "quantity_discount quantity = 1 - calculate_discount quantity"
  by (simp add: quantity_discount_def calculate_discount_def)

lemma calculate_discount_mono:
  "q \<le> q' \<Longrightarrow> calculate_discount q \<le> calculate_discount q'"
  by (simp add: calculate_discount_def)

lemma calculate_discount_range: "0 \<le> calculate_discount q \<and> calculate_discount q < 1"
  by (simp add: calculate_discount_def)

section \<open>The total of the detailed calculator\<close>

text \<open>
  Over the exact reals the total is the subtotal times one minus the discount rate,
  rounded to two decimal places, since \<open>s - s * d = s * (1 - d)\<close>. Whether the program
  returns that very amount is a question of its doubles: for volume 1, material 718,
  finish machined and 50 pieces the exact total is 5816.025, a tie of the rounding, and
  the last digit then depends on the rounding error of every operation before it. That
  is outside this model, so the equation is not stated as a property of the program.
\<close>

text \<open>What every call of \<open>calculate\<close> returns, in terms of the subtotal.\<close>

lemma calculate_returns:
  "\<exists>r. calculate stats material finish q mbc cbc = Inr r
     \<and> price_per_piece (breakdown r) =
         unit_price (calculate_subtotal stats material finish mbc cbc) q
     \<and> setup_fee r = calculate_setup_fee mbc
     \<and> material_cost r + processing_cost r + mold_base_cost r + setup_fee r =
         calculate_subtotal stats material finish mbc cbc
     \<and> total_price r =
         round_nd (calculate_subtotal stats material finish mbc cbc
                     * (1 - calculate_discount q)) 2"
  by (simp add: calculate_def calculate_subtotal_def unit_price_def Let_def right_diff_distrib)

lemma subtotal_no_stats:
  "calculate_subtotal no_stats ''P20'' ''machined'' None None = 13347 / 2"
  by (simp add: calculate_subtotal_def no_stats_def get_or_def calculate_material_cost_def
      calculate_processing_cost_def calculate_mold_base_cost_def calculate_setup_fee_def
      cad_nonempty_def mold_nonempty_def dict_get_def dict_item_def MATERIAL_PRICES_def
      FINISH_MULTIPLIERS_def HOURLY_RATES_def BASE_FIXED_FEE_def Let_def)

lemma subtotal_inverted_stats:
  "calculate_subtotal inverted_stats ''P20'' ''machined'' None None = 13 / 8"
  by (simp add: calculate_subtotal_def inverted_stats_def get_or_def calculate_material_cost_def
      calculate_processing_cost_def calculate_mold_base_cost_def calculate_setup_fee_def
      cad_nonempty_def mold_nonempty_def dict_get_def dict_item_def MATERIAL_PRICES_def
      FINISH_MULTIPLIERS_def HOURLY_RATES_def BASE_FIXED_FEE_def Let_def)

section \<open>Absent statistics\<close>

text \<open>
  C3, as amended. For every statistics input in which a field is absent, \<open>calculate\<close>
  gives the very outcome that it gives when the field is present with its default: 100
  for \<open>volume\<close>, the empty dictionary for \<open>complexity_metrics\<close> and 50 for its
  \<open>complexity_score\<close>, the empty dictionary for \<open>manufacturing_analysis\<close> and no
  recommendations for its \<open>process_recommendations\<close>. An absent field is replaced by
  its default and is not signalled as an error.
\<close>

theorem absent_statistics_use_defaults:
  "calculate (stats\<lparr>sd_volume := None\<rparr>) material finish quantity mbc cbc =
     calculate (stats\<lparr>sd_volume := Some 100\<rparr>) material finish quantity mbc cbc
   \<and> calculate (stats\<lparr>sd_complexity_metrics := None\<rparr>) material finish quantity mbc cbc =
       calculate (stats\<lparr>sd_complexity_metrics := Some \<lparr>cd_complexity_score = None\<rparr>\<rparr>)
         material finish quantity mbc cbc
   \<and> calculate (stats\<lparr>sd_complexity_metrics := Some \<lparr>cd_complexity_score = None\<rparr>\<rparr>)
         material finish quantity mbc cbc =
       calculate (stats\<lparr>sd_complexity_metrics := Some \<lparr>cd_complexity_score = Some 50\<rparr>\<rparr>)
         material finish quantity mbc cbc
   \<and> calculate (stats\<lparr>sd_manufacturing_analysis := None\<rparr>) material finish quantity mbc cbc =
       calculate
         (stats\<lparr>sd_manufacturing_analysis := Some \<lparr>md_process_recommendations = None\<rparr>\<rparr>)
         material finish quantity mbc cbc
   \<and> calculate
         (stats\<lparr>sd_manufacturing_analysis := Some \<lparr>md_process_recommendations = None\<rparr>\<rparr>)
         material finish quantity mbc cbc =
       calculate
         (stats\<lparr>sd_manufacturing_analysis := Some \<lparr>md_process_recommendations = Some []\<rparr>\<rparr>)
         material finish quantity mbc cbc"
  by (simp add: calculate_def Let_def get_or_def calculate_processing_cost_def)

text \<open>
  That \<open>calculate\<close> fails when a field of the statistics is absent does not hold:
  with the empty dictionary, in which \<open>volume\<close> and \<open>complexity_metrics\<close> are absent,
  it returns the total 6673.50.
\<close>

theorem absent_statistics_accepted_counterexample:
  "sd_volume no_stats = None \<and> sd_complexity_metrics no_stats = None
   \<and> \<not> isl (calculate no_stats ''P20'' ''machined'' 1 None None)
   \<and> total_price (projr (calculate no_stats ''P20'' ''machined'' 1 None None)) = 13347 / 2"
proof -
  have "round_nd (13347 / 2) 2 = 13347 / 2"
    by (simp add: round_nd_def py_round_def Let_def)
  then have "\<not> isl (calculate no_stats ''P20'' ''machined'' 1 None None)
    \<and> total_price (projr (calculate no_stats ''P20'' ''machined'' 1 None None)) = 13347 / 2"
    using calculate_returns [of no_stats "''P20''" "''machined''" 1 None None]
    by (auto simp: subtotal_no_stats calculate_discount_def)
  then show ?thesis
    by (simp add: no_stats_def)
qed

section \<open>The price of a piece\<close>

lemma unit_price_mono:
  assumes "0 \<le> s" "0 < q" "q \<le> q'"
  shows "unit_price s q' \<le> unit_price s q"
proof -
  let ?t = "\<lambda>k. round_nd (s - s * calculate_discount k) 2"
  have d: "s * calculate_discount q \<le> s * calculate_discount q'"
    using assms calculate_discount_mono [of q q'] by (simp add: mult_left_mono)
  have t: "?t q' \<le> ?t q"
    by (rule round_nd_mono) (use d in simp)
  have "0 \<le> s - s * calculate_discount q'"
    using assms(1) calculate_discount_range [of q'] by (simp add: mult_left_le)
  then have t0: "0 \<le> ?t q'"
    by (rule round_nd_nonneg)
  have "?t q' / of_int q' \<le> ?t q' / of_int q"
    using assms t0 by (simp add: frac_le)
  also have "\<dots> \<le> ?t q / of_int q"
    using assms t by (simp add: divide_right_mono)
  finally have "round_nd (?t q' / of_int q') 2 \<le> round_nd (?t q / of_int q) 2"
    by (rule round_nd_mono)
  then show ?thesis
    using assms by (simp add: unit_price_def)
qed

text \<open>
  At each tier boundary the two quotients are more than a cent apart once the subtotal
  is at least 18.
\<close>

lemma unit_price_drop_10:
  assumes "18 \<le> s"
  shows "unit_price s 10 < unit_price s 9"
proof -
  have "round_nd (s - s * (5 / 100)) 2 \<le> (s - s * (5 / 100)) + 5 / 1000"
    by (rule round_nd_2_upper)
  moreover have "s - 5 / 1000 \<le> round_nd s 2"
    by (rule round_nd_2_lower)
  ultimately have "round_nd (s - s * (5 / 100)) 2 / 10 + 1 / 100 < round_nd s 2 / 9"
    using assms by simp
  then have "round_nd (round_nd (s - s * (5 / 100)) 2 / 10) 2 < round_nd (round_nd s 2 / 9) 2"
    by (rule round_nd_2_gap)
  then show ?thesis
    by (simp add: unit_price_def calculate_discount_def)
qed

lemma unit_price_drop_50:
  assumes "18 \<le> s"
  shows "unit_price s 50 < unit_price s 49"
proof -
  have "round_nd (s - s * (10 / 100)) 2 \<le> (s - s * (10 / 100)) + 5 / 1000"
    by (rule round_nd_2_upper)
  moreover have "(s - s * (5 / 100)) - 5 / 1000 \<le> round_nd (s - s * (5 / 100)) 2"
    by (rule round_nd_2_lower)
  ultimately have
    "round_nd (s - s * (10 / 100)) 2 / 50 + 1 / 100 < round_nd (s - s * (5 / 100)) 2 / 49"
    using assms by simp
  then have "round_nd (round_nd (s - s * (10 / 100)) 2 / 50) 2
      < round_nd (round_nd (s - s * (5 / 100)) 2 / 49) 2"
    by (rule round_nd_2_gap)
  then show ?thesis
    by (simp add: unit_price_def calculate_discount_def)
qed

lemma unit_price_drop_100:
  assumes "18 \<le> s"
  shows "unit_price s 100 < unit_price s 99"
proof -
  have "round_nd (s - s * (15 / 100)) 2 \<le> (s - s * (15 / 100)) + 5 / 1000"
    by (rule round_nd_2_upper)
  moreover have "(s - s * (10 / 100)) - 5 / 1000 \<le> round_nd (s - s * (10 / 100)) 2"
    by (rule round_nd_2_lower)
  ultimately have
    "round_nd (s - s * (15 / 100)) 2 / 100 + 1 / 100 < round_nd (s - s * (10 / 100)) 2 / 99"
    using assms by simp
  then have "round_nd (round_nd (s - s * (15 / 100)) 2 / 100) 2
      < round_nd (round_nd (s - s * (10 / 100)) 2 / 99) 2"
    by (rule round_nd_2_gap)
  then show ?thesis
    by (simp add: unit_price_def calculate_discount_def)
qed

lemma unit_price_cross:
  assumes s: "18 \<le> s" and b: "b = 10 \<or> b = 50 \<or> b = 100" and q: "0 < q" "q < b" "b \<le> q'"
  shows "unit_price s q' < unit_price s q"
proof -
  have s0: "0 \<le> s"
    using s by simp
  have "unit_price s q' \<le> unit_price s b"
    using s0 b q by (intro unit_price_mono) auto
  also have "unit_price s b < unit_price s (b - 1)"
    using b s unit_price_drop_10 unit_price_drop_50 unit_price_drop_100 by auto
  also have "unit_price s (b - 1) \<le> unit_price s q"
    using s0 q by (intro unit_price_mono) auto
  finally show ?thesis .
qed

lemma unit_price_99: "unit_price (13 / 8) 99 = 1 / 100"
  by (simp add: unit_price_def calculate_discount_def round_nd_def py_round_def Let_def)

lemma unit_price_100: "unit_price (13 / 8) 100 = 1 / 100"
  by (simp add: unit_price_def calculate_discount_def round_nd_def py_round_def Let_def)

text \<open>
  C8, as amended. For fixed statistics, material, finish and mold base configuration,
  the \<open>price_per_piece\<close> of the detailed calculator does not increase when a positive
  quantity increases, provided the subtotal is not negative; and it decreases strictly
  between any two positive quantities on the two sides of a tier boundary 10, 50 or 100,
  provided the subtotal is at least 18.
\<close>

theorem price_per_piece_monotone:
  "\<exists>r r'. calculate stats material finish q mbc cbc = Inr r
     \<and> calculate stats material finish q' mbc cbc = Inr r'
     \<and> (0 \<le> calculate_subtotal stats material finish mbc cbc \<and> 0 < q \<and> q \<le> q'
          \<longrightarrow> price_per_piece (breakdown r') \<le> price_per_piece (breakdown r))
     \<and> (18 \<le> calculate_subtotal stats material finish mbc cbc \<and> 0 < q
          \<and> (q < 10 \<and> 10 \<le> q' \<or> q < 50 \<and> 50 \<le> q' \<or> q < 100 \<and> 100 \<le> q')
          \<longrightarrow> price_per_piece (breakdown r') < price_per_piece (breakdown r))"
proof -
  let ?s = "calculate_subtotal stats material finish mbc cbc"
  obtain r where r: "calculate stats material finish q mbc cbc = Inr r"
    "price_per_piece (breakdown r) = unit_price ?s q"
    using calculate_returns [of stats material finish q mbc cbc] by blast
  obtain r' where r': "calculate stats material finish q' mbc cbc = Inr r'"
    "price_per_piece (breakdown r') = unit_price ?s q'"
    using calculate_returns [of stats material finish q' mbc cbc] by blast
  have "0 \<le> ?s \<and> 0 < q \<and> q \<le> q' \<longrightarrow> unit_price ?s q' \<le> unit_price ?s q"
    using unit_price_mono by blast
  moreover have "18 \<le> ?s \<and> 0 < q
      \<and> (q < 10 \<and> 10 \<le> q' \<or> q < 50 \<and> 50 \<le> q' \<or> q < 100 \<and> 100 \<le> q')
      \<longrightarrow> unit_price ?s q' < unit_price ?s q"
    using unit_price_cross [of ?s 10 q q'] unit_price_cross [of ?s 50 q q']
      unit_price_cross [of ?s 100 q q'] by blast
  ultimately show ?thesis
    using r r' by simp
qed

theorem price_per_piece_monotone_witness:
  "0 \<le> calculate_subtotal no_stats ''P20'' ''machined'' None None
   \<and> 18 \<le> calculate_subtotal no_stats ''P20'' ''machined'' None None
   \<and> (0::int) < 9 \<and> (9::int) < 10 \<and> (10::int) \<le> 10
   \<and> price_per_piece (breakdown (projr (calculate no_stats ''P20'' ''machined'' 10 None None)))
       < price_per_piece (breakdown (projr (calculate no_stats ''P20'' ''machined'' 9 None None)))
   \<and> price_per_piece (breakdown (projr (calculate no_stats ''P20'' ''machined'' 10 None None)))
       \<le> price_per_piece (breakdown (projr (calculate no_stats ''P20'' ''machined'' 9 None None)))
   \<and> (0::int) < 49 \<and> (49::int) < 50 \<and> (50::int) \<le> 50
   \<and> price_per_piece (breakdown (projr (calculate no_stats ''P20'' ''machined'' 50 None None)))
       < price_per_piece (breakdown (projr (calculate no_stats ''P20'' ''machined'' 49 None None)))
   \<and> (0::int) < 20 \<and> (20::int) < 100 \<and> (100::int) \<le> 300
   \<and> price_per_piece (breakdown (projr (calculate no_stats ''P20'' ''machined'' 300 None None)))
       < price_per_piece (breakdown (projr (calculate no_stats ''P20'' ''machined'' 20 None None)))"
  using price_per_piece_monotone [of no_stats "''P20''" "''machined''" 9 None None 10]
    price_per_piece_monotone [of no_stats "''P20''" "''machined''" 49 None None 50]
    price_per_piece_monotone [of no_stats "''P20''" "''machined''" 20 None None 300]
  by (auto simp: subtotal_no_stats)

text \<open>
  That the price of a piece drops strictly at every tier boundary whenever the subtotal
  is positive does not hold: with the volume -3025 of a mesh turned inside out the
  subtotal is 1.625, and 99 and 100 pieces both cost 0.01 a piece.
\<close>

theorem price_per_piece_not_strict_counterexample:
  "0 < calculate_subtotal inverted_stats ''P20'' ''machined'' None None
   \<and> \<not> price_per_piece
          (breakdown (projr (calculate inverted_stats ''P20'' ''machined'' 100 None None)))
        < price_per_piece
            (breakdown (projr (calculate inverted_stats ''P20'' ''machined'' 99 None None)))"
proof -
  obtain r where r: "calculate inverted_stats ''P20'' ''machined'' 99 None None = Inr r"
    "price_per_piece (breakdown r) = unit_price (13 / 8) 99"
    using calculate_returns [of inverted_stats "''P20''" "''machined''" 99 None None]
    by (auto simp: subtotal_inverted_stats)
  obtain r' where r': "calculate inverted_stats ''P20'' ''machined'' 100 None None = Inr r'"
    "price_per_piece (breakdown r') = unit_price (13 / 8) 100"
    using calculate_returns [of inverted_stats "''P20''" "''machined''" 100 None None]
    by (auto simp: subtotal_inverted_stats)
  show ?thesis
    using r r' by (simp add: subtotal_inverted_stats unit_price_99 unit_price_100)
qed

section \<open>The setup fee in the two pricing paths\<close>







section \<open>The complexity metrics\<close>

lemma face_aspect_ratio_ge_1: "1 \<le> face_aspect_ratio t"
proof -
  obtain v0 v1 v2 where t: "t = (v0, v1, v2)"
    by (cases t) auto
  let ?es = "[norm3 (vsub v1 v0), norm3 (vsub v2 v1), norm3 (vsub v0 v2)]"
  have "Min (set ?es) \<le> norm3 (vsub v1 v0)"
    by (intro Min_le) auto
  also have "\<dots> \<le> Max (set ?es)"
    by (intro Max_ge) auto
  finally have "0 < Min (set ?es) \<Longrightarrow> 1 \<le> Max (set ?es) / Min (set ?es)"
    by simp
  then show ?thesis
    unfolding t face_aspect_ratio_def Let_def by (simp del: set_simps Min_insert Max_insert)
qed

lemma aspect_ratios_ge_1:
  "aspect_ratios vs fs = Inr rs \<Longrightarrow> list_all (\<lambda>r. 1 \<le> r) rs"
  by (induction fs arbitrary: rs) (auto simp: face_aspect_ratio_ge_1 split: sum.splits)

lemma sum_list_ge_length:
  "list_all (\<lambda>r. 1 \<le> r) rs \<Longrightarrow> real (length rs) \<le> sum_list rs"
  by (induction rs) auto

lemma avg_aspect_ratio_ge_1:
  assumes "list_all (\<lambda>r. 1 \<le> r) rs"
  shows "1 \<le> avg_aspect_ratio_of rs"
proof (cases "rs = []")
  case True
  then show ?thesis
    by (simp add: avg_aspect_ratio_of_def)
next
  case False
  then have "0 < real (length rs)"
    by simp
  then show ?thesis
    using sum_list_ge_length [OF assms] False by (simp add: avg_aspect_ratio_of_def)
qed

lemma compactness_le_1: "compactness_of d \<le> 1"
proof -
  let ?S = "set (dimension_values d)"
  have "Min ?S \<le> width d"
    by (intro Min_le) (auto simp: dimension_values_def)
  also have "\<dots> \<le> Max ?S"
    by (intro Max_ge) (auto simp: dimension_values_def)
  finally have "0 < Max ?S \<Longrightarrow> Min ?S / Max ?S \<le> 1"
    by simp
  then show ?thesis
    unfolding compactness_of_def Let_def by (simp del: set_simps)
qed

text \<open>The loop over the faces does not raise when the indices are in range.\<close>

lemma face_vertices_valid:
  assumes "0 \<le> a \<and> a < int (length vs)" "0 \<le> b \<and> b < int (length vs)"
    "0 \<le> c \<and> c < int (length vs)"
  shows "face_vertices vs (a, b, c) = Inr (vs ! nat a, vs ! nat b, vs ! nat c)"
  using assms by (simp add: face_vertices_def np_index_def)

lemma aspect_ratios_valid:
  assumes "list_all (\<lambda>(a, b, c). (0 \<le> a \<and> a < int (length vs))
      \<and> (0 \<le> b \<and> b < int (length vs)) \<and> (0 \<le> c \<and> c < int (length vs))) fs"
  shows "\<exists>rs. aspect_ratios vs fs = Inr rs"
  using assms
proof (induction fs)
  case Nil
  then show ?case
    by simp
next
  case (Cons f fs)
  obtain a b c where f: "f = (a, b, c)"
    by (cases f) auto
  from Cons.prems f have "face_vertices vs f = Inr (vs ! nat a, vs ! nat b, vs ! nat c)"
    using face_vertices_valid [of a vs b c] by simp
  moreover from Cons obtain rs where "aspect_ratios vs fs = Inr rs"
    by auto
  ultimately show ?case
    by simp
qed

lemma valid_mesh_ratios:
  "valid_mesh m \<Longrightarrow> \<exists>rs. aspect_ratios (vertices m) (faces m) = Inr rs"
  unfolding valid_mesh_def index_ok_def by (intro aspect_ratios_valid) simp

lemma score_upper: "complexity_score_of svr cpt dens avg \<le> 100"
  by (simp add: complexity_score_of_def)

text \<open>
  No term of the sum is negative, so the minimum with 100 is the clamp to the range from
  0 to 100.
\<close>

lemma score_clamp:
  assumes "0 \<le> svr" "cpt \<le> 1" "0 \<le> dens" "1 \<le> avg"
  shows "complexity_score_of svr cpt dens avg =
           clamp 0 100 (svr * 10 + (1 - cpt) * 50 + dens * 0.001 + (avg - 1) * 10)"
    and "0 \<le> complexity_score_of svr cpt dens avg"
proof -
  have "0 \<le> svr * 10 + (1 - cpt) * 50 + dens * 0.001 + (avg - 1) * 10"
    using assms by simp
  then show "complexity_score_of svr cpt dens avg =
           clamp 0 100 (svr * 10 + (1 - cpt) * 50 + dens * 0.001 + (avg - 1) * 10)"
    and "0 \<le> complexity_score_of svr cpt dens avg"
    by (simp_all add: complexity_score_of_def clamp_def)
qed

lemma calculate_complexity_ratios:
  "aspect_ratios (vertices m) (faces m) = Inr rs \<Longrightarrow>
   complexity_score (calculate_complexity m v a d) =
     round_nd (complexity_score_of (surface_volume_ratio_of v a) (compactness_of d)
       (triangle_density_of m a) (avg_aspect_ratio_of rs)) 2"
  by (simp add: calculate_complexity_def Let_def)

lemma calculate_complexity_unrounded:
  "unrounded_score m v a d = Inr s \<Longrightarrow>
   complexity_score (calculate_complexity m v a d) = round_nd s 2
   \<and> difficulty_rating (calculate_complexity m v a d) = get_difficulty_rating s"
  by (auto simp: unrounded_score_def calculate_complexity_def Let_def split: sum.splits)

lemma calculate_complexity_fallback:
  "aspect_ratios (vertices m) (faces m) = Inl e \<Longrightarrow>
   complexity_score (calculate_complexity m v a d) = 50
   \<and> difficulty_rating (calculate_complexity m v a d) = Media"
  by (simp add: calculate_complexity_def Let_def)

lemma rating_of_rounded:
  assumes "round_nd s 2 \<noteq> 25" "round_nd s 2 \<noteq> 50" "round_nd s 2 \<noteq> 75"
  shows "get_difficulty_rating (round_nd s 2) = get_difficulty_rating s"
  using round_nd_threshold [of s 2 25] round_nd_threshold [of s 2 50]
    round_nd_threshold [of s 2 75] assms
  by (simp add: get_difficulty_rating_def)

lemma calculate_complexity_rating:
  assumes "complexity_score (calculate_complexity m v a d) \<noteq> 25"
    "complexity_score (calculate_complexity m v a d) \<noteq> 50"
    "complexity_score (calculate_complexity m v a d) \<noteq> 75"
  shows "difficulty_rating (calculate_complexity m v a d) =
           get_difficulty_rating (complexity_score (calculate_complexity m v a d))"
proof (cases "aspect_ratios (vertices m) (faces m)")
  case (Inl e)
  then show ?thesis
    using assms calculate_complexity_fallback [OF Inl, of v a d] by simp
next
  case (Inr rs)
  then obtain s where s: "unrounded_score m v a d = Inr s"
    by (simp add: unrounded_score_def)
  show ?thesis
    using assms calculate_complexity_unrounded [OF s] rating_of_rounded [of s] by simp
qed

section \<open>The analysis\<close>

lemma analyze_bounds:
  "bounds m = Some b \<Longrightarrow>
   analyze m =
     Inr \<lparr>volume = (if is_watertight m then mesh_volume m else 0),
          area = mesh_area m,
          dimensions = dimensions_of b,
          center_of_mass = centroid m,
          inertia_tensor =
            calculate_inertia m (if is_watertight m then mesh_volume m else 0),
          bounding_box =
            \<lparr>bb_min = fst b, bb_max = snd b, bb_center = vhalf (vadd (fst b) (snd b)),
             bb_size = vsub (snd b) (fst b)\<rparr>,
          complexity_metrics =
            calculate_complexity m (if is_watertight m then mesh_volume m else 0)
              (mesh_area m) (dimensions_of b)\<rparr>"
  by (simp add: analyze_def Let_def)

lemma analyze_cases:
  "analyze m = Inr r \<Longrightarrow>
   \<exists>b. bounds m = Some b
     \<and> volume r = (if is_watertight m then mesh_volume m else 0)
     \<and> area r = mesh_area m
     \<and> dimensions r = dimensions_of b
     \<and> inertia_tensor r = calculate_inertia m (volume r)
     \<and> complexity_metrics r = calculate_complexity m (volume r) (area r) (dimensions r)"
  by (cases "bounds m") (auto simp: analyze_def Let_def)

text \<open>In the model \<open>analyze\<close> raises exactly when the mesh has no bounding box.\<close>

lemma analyze_fails_iff: "isl (analyze m) \<longleftrightarrow> bounds m = None"
  by (cases "bounds m") (simp_all add: analyze_def Let_def)

subsection \<open>The two meshes\<close>

lemma sqrt_eqI: "0 \<le> r \<Longrightarrow> r * r = x \<Longrightarrow> sqrt x = r"
  by (metis real_sqrt_abs2 abs_of_nonneg)

lemma brick_sqrts:
  "sqrt 1936 = 44" "sqrt 13689 = 117" "sqrt 57600 = 240"
  "sqrt 15625 = 125" "sqrt 59536 = 244" "sqrt 71289 = 267"
  by (rule sqrt_eqI; simp)+

lemma plate_sqrts:
  "sqrt 530933764 = 23042" "sqrt 5972198400 = 77280" "sqrt 6503132164 = 80642"
  by (rule sqrt_eqI; simp)+

lemma brick_ratios:
  "aspect_ratios (vertices brick) (faces brick) =
     Inr [125 / 44, 125 / 44, 125 / 44, 125 / 44, 61 / 11, 61 / 11, 61 / 11, 61 / 11,
          89 / 39, 89 / 39, 89 / 39, 89 / 39]"
  by (simp add: brick_def face_vertices_def np_index_def face_aspect_ratio_def norm3_def
      vsub_def brick_sqrts)

lemma plate_ratios:
  "aspect_ratios (vertices plate) (faces plate) = Inr [40321 / 11521, 40321 / 11521]"
  by (simp add: plate_def face_vertices_def np_index_def face_aspect_ratio_def norm3_def
      vsub_def plate_sqrts)

lemma brick_data:
  "bounds brick = Some ((0, 0, 0), (44, 117, 240))" "is_watertight brick"
  "mesh_volume brick = 1235520" "mesh_area brick = 87576" "length (faces brick) = 12"
  by (simp_all add: brick_def)

lemma plate_data:
  "bounds plate = Some ((0, 0, 0), (23042, 77280, 0))" "\<not> is_watertight plate"
  "mesh_area plate = 1780685760" "length (faces plate) = 2"
  by (simp_all add: plate_def)

lemma brick_valid: "valid_mesh brick"
  by (simp add: valid_mesh_def index_ok_def brick_def)

lemma brick_compactness: "compactness_of (dimensions_of ((0, 0, 0), (44, 117, 240))) = 11 / 60"
  by (simp add: compactness_of_def dimensions_of_def dimension_values_def)

lemma plate_compactness:
  "compactness_of (dimensions_of ((0, 0, 0), (23042, 77280, 0))) = 0"
  by (simp add: compactness_of_def dimensions_of_def dimension_values_def)

lemma brick_unrounded:
  "unrounded_score brick 1235520 87576 (dimensions_of ((0, 0, 0), (44, 117, 240))) =
     Inr (48482438599 / 722502000)"
  by (simp add: unrounded_score_def brick_ratios brick_compactness brick_data
      complexity_score_of_def surface_volume_ratio_of_def triangle_density_of_def
      avg_aspect_ratio_of_def)

lemma plate_unrounded:
  "unrounded_score plate 0 1780685760 (dimensions_of ((0, 0, 0), (23042, 77280, 0))) =
     Inr (66773784000001 / 890342880000)"
  by (simp add: unrounded_score_def plate_ratios plate_compactness plate_data
      complexity_score_of_def surface_volume_ratio_of_def triangle_density_of_def
      avg_aspect_ratio_of_def)

lemma round_brick_score: "round_nd (48482438599 / 722502000) 2 = 671 / 10"
  by (simp add: round_nd_def py_round_def Let_def)

lemma round_plate_score: "round_nd (66773784000001 / 890342880000) 2 = 75"
  by (simp add: round_nd_def py_round_def Let_def)

section \<open>A mesh that is not watertight\<close>

text \<open>
  C5. For every mesh that is not watertight, the result of the analysis reports the
  volume 0 and the identity matrix as inertia tensor, and the area of the mesh as area.
  (The analysis has no result only when the mesh has no bounding box.)
\<close>

theorem non_watertight_placeholders:
  assumes "\<not> is_watertight m"
  shows "case analyze m of
           Inl e \<Rightarrow> bounds m = None
         | Inr r \<Rightarrow> bounds m \<noteq> None \<and> volume r = 0
             \<and> inertia_tensor r = [[1, 0, 0], [0, 1, 0], [0, 0, 1]]
             \<and> area r = mesh_area m"
  using assms
  by (cases "bounds m") (simp_all add: analyze_def Let_def calculate_inertia_def)

theorem non_watertight_placeholders_witness:
  "\<not> is_watertight plate \<and> \<not> isl (analyze plate)
   \<and> volume (projr (analyze plate)) = 0
   \<and> inertia_tensor (projr (analyze plate)) = [[1, 0, 0], [0, 1, 0], [0, 0, 1]]
   \<and> area (projr (analyze plate)) = 1780685760"
  using non_watertight_placeholders [of plate]
  by (simp add: analyze_fails_iff plate_data split: sum.splits)

section \<open>The complexity score\<close>

text \<open>
  C6, as amended. For every valid mesh with volume > 0 and area > 0 the analysis
  returns, and the reported \<open>complexity_score\<close> lies between 0 and 100: it is the
  rounding to two decimal places of the clamp to that range of surface to volume ratio
  times 10, plus one minus compactness times 50, plus triangle density times 0.001, plus
  average aspect ratio minus one times 10, these four taken before they are rounded.
\<close>

theorem complexity_score_rounded_clamp:
  assumes "valid_mesh m" "is_watertight m" "0 < mesh_volume m" "0 < mesh_area m"
  shows "\<exists>r rs. analyze m = Inr r \<and> aspect_ratios (vertices m) (faces m) = Inr rs
     \<and> volume r = mesh_volume m \<and> area r = mesh_area m
     \<and> complexity_score (complexity_metrics r) =
         round_nd (clamp 0 100
           (area r / volume r * 10 + (1 - compactness_of (dimensions r)) * 50
              + real (length (faces m)) / area r * 0.001
              + (avg_aspect_ratio_of rs - 1) * 10)) 2
     \<and> 0 \<le> complexity_score (complexity_metrics r)
     \<and> complexity_score (complexity_metrics r) \<le> 100"
proof -
  from assms(1) obtain b where b: "bounds m = Some b"
    by (auto simp: valid_mesh_def)
  from assms(1) obtain rs where rs: "aspect_ratios (vertices m) (faces m) = Inr rs"
    using valid_mesh_ratios by blast
  let ?svr = "mesh_area m / mesh_volume m"
  let ?cpt = "compactness_of (dimensions_of b)"
  let ?dens = "real (length (faces m)) / mesh_area m"
  let ?avg = "avg_aspect_ratio_of rs"
  let ?s = "complexity_score_of ?svr ?cpt ?dens ?avg"
  have svr: "surface_volume_ratio_of (mesh_volume m) (mesh_area m) = ?svr"
    using assms by (simp add: surface_volume_ratio_of_def)
  have dens: "triangle_density_of m (mesh_area m) = ?dens"
    using assms by (simp add: triangle_density_of_def)
  have avg: "1 \<le> ?avg"
    using aspect_ratios_ge_1 [OF rs] by (rule avg_aspect_ratio_ge_1)
  have nonneg: "0 \<le> ?svr" "0 \<le> ?dens"
    using assms by simp_all
  have clamp: "?s = clamp 0 100 (?svr * 10 + (1 - ?cpt) * 50 + ?dens * 0.001 + (?avg - 1) * 10)"
    and lower: "0 \<le> ?s"
    using score_clamp [OF nonneg(1) compactness_le_1 nonneg(2) avg] by simp_all
  have "round_nd 0 2 \<le> round_nd ?s 2" "round_nd ?s 2 \<le> round_nd (of_int 100) 2"
    using lower score_upper [of ?svr ?cpt ?dens ?avg] by (simp_all add: round_nd_mono)
  then have range: "0 \<le> round_nd ?s 2" "round_nd ?s 2 \<le> 100"
    using round_nd_of_int [of 100 2] by (simp_all add: round_nd_zero)
  have "complexity_score
          (calculate_complexity m (mesh_volume m) (mesh_area m) (dimensions_of b)) =
        round_nd ?s 2"
    using calculate_complexity_ratios [OF rs, of "mesh_volume m" "mesh_area m" "dimensions_of b"]
    by (simp add: svr dens)
  then show ?thesis
    using assms(2) rs clamp range by (simp add: analyze_bounds [OF b])
qed

theorem complexity_score_rounded_clamp_witness:
  "valid_mesh brick \<and> is_watertight brick \<and> 0 < mesh_volume brick \<and> 0 < mesh_area brick
   \<and> \<not> isl (analyze brick)
   \<and> complexity_score (complexity_metrics (projr (analyze brick))) =
       round_nd (clamp 0 100 (48482438599 / 722502000)) 2
   \<and> 0 \<le> complexity_score (complexity_metrics (projr (analyze brick)))
   \<and> complexity_score (complexity_metrics (projr (analyze brick))) \<le> 100"
proof -
  obtain r rs where r: "analyze brick = Inr r"
    "aspect_ratios (vertices brick) (faces brick) = Inr rs"
    "volume r = mesh_volume brick" "area r = mesh_area brick"
    "complexity_score (complexity_metrics r) =
       round_nd (clamp 0 100
         (area r / volume r * 10 + (1 - compactness_of (dimensions r)) * 50
            + real (length (faces brick)) / area r * 0.001
            + (avg_aspect_ratio_of rs - 1) * 10)) 2"
    "0 \<le> complexity_score (complexity_metrics r)"
    "complexity_score (complexity_metrics r) \<le> 100"
    using complexity_score_rounded_clamp [of brick] brick_valid brick_data by auto
  have d: "dimensions r = dimensions_of ((0, 0, 0), (44, 117, 240))"
    using analyze_cases [OF r(1)] by (auto simp: brick_data)
  have rs: "rs = [125 / 44, 125 / 44, 125 / 44, 125 / 44, 61 / 11, 61 / 11, 61 / 11, 61 / 11,
           89 / 39, 89 / 39, 89 / 39, 89 / 39]"
    using r(2) by (simp add: brick_ratios)
  have eq: "area r / volume r * 10 + (1 - compactness_of (dimensions r)) * 50
            + real (length (faces brick)) / area r * 0.001
            + (avg_aspect_ratio_of rs - 1) * 10 = 48482438599 / 722502000"
    by (simp add: r(3,4) d rs brick_data brick_compactness avg_aspect_ratio_of_def)
  have "complexity_score (complexity_metrics r) =
          round_nd (clamp 0 100 (48482438599 / 722502000)) 2"
    using r(5) unfolding eq .
  then show ?thesis
    using r(1,6,7) brick_valid by (simp add: brick_data)
qed

text \<open>
  Without the rounding the statement does not hold: for the box the reported score is
  67.1, and the clamp of the weighted sum is 67.1035...
\<close>

theorem complexity_score_not_exact_clamp_counterexample:
  "valid_mesh brick \<and> is_watertight brick \<and> 0 < mesh_volume brick \<and> 0 < mesh_area brick
   \<and> complexity_score (complexity_metrics (projr (analyze brick))) \<noteq>
       clamp 0 100
         (mesh_area brick / mesh_volume brick * 10
            + (1 - compactness_of (dimensions_of (the (bounds brick)))) * 50
            + real (length (faces brick)) / mesh_area brick * 0.001
            + (avg_aspect_ratio_of (projr (aspect_ratios (vertices brick) (faces brick))) - 1)
                * 10)"
proof -
  have "complexity_score (complexity_metrics (projr (analyze brick))) = 671 / 10"
    using calculate_complexity_unrounded [OF brick_unrounded]
    by (simp add: analyze_bounds [OF brick_data(1)] brick_data round_brick_score)
  moreover have "clamp 0 100
         (mesh_area brick / mesh_volume brick * 10
            + (1 - compactness_of (dimensions_of (the (bounds brick)))) * 50
            + real (length (faces brick)) / mesh_area brick * 0.001
            + (avg_aspect_ratio_of (projr (aspect_ratios (vertices brick) (faces brick))) - 1)
                * 10) = 48482438599 / 722502000"
    by (simp add: brick_data brick_ratios brick_compactness avg_aspect_ratio_of_def clamp_def)
  ultimately show ?thesis
    using brick_valid by (simp add: brick_data)
qed

section \<open>The difficulty rating\<close>

text \<open>
  C7, as amended. For every analysis result whose complexity metrics were computed
  without falling back to the default, the \<open>difficulty_rating\<close> is a function of the
  complexity score before its rounding to two decimal places, by the thresholds:
  \<open>Baixa\<close> below 25, \<open>Media\<close> from 25 to below 50, \<open>Alta\<close> from 50 to below 75,
  \<open>Muito Alta\<close> from 75 on, a score of exactly 25, 50 or 75 falling into the upper class;
  the reported score is the rounded one. For every analysis result the rating is the
  one that the thresholds give for the reported score whenever the reported score is
  none of 25, 50 and 75.
\<close>

theorem difficulty_rating_thresholds:
  assumes "analyze m = Inr r"
  shows "(\<forall>s. unrounded_score m (volume r) (area r) (dimensions r) = Inr s \<longrightarrow>
            difficulty_rating (complexity_metrics r) = get_difficulty_rating s
            \<and> complexity_score (complexity_metrics r) = round_nd s 2)
     \<and> (complexity_score (complexity_metrics r) \<noteq> 25
          \<and> complexity_score (complexity_metrics r) \<noteq> 50
          \<and> complexity_score (complexity_metrics r) \<noteq> 75 \<longrightarrow>
            difficulty_rating (complexity_metrics r) =
              get_difficulty_rating (complexity_score (complexity_metrics r)))
     \<and> (\<forall>s. (s < 25 \<longrightarrow> get_difficulty_rating s = Baixa)
            \<and> (25 \<le> s \<and> s < 50 \<longrightarrow> get_difficulty_rating s = Media)
            \<and> (50 \<le> s \<and> s < 75 \<longrightarrow> get_difficulty_rating s = Alta)
            \<and> (75 \<le> s \<longrightarrow> get_difficulty_rating s = Muito_Alta))
     \<and> get_difficulty_rating 25 = Media
     \<and> get_difficulty_rating 50 = Alta
     \<and> get_difficulty_rating 75 = Muito_Alta"
proof -
  from analyze_cases [OF assms]
  have cm: "complexity_metrics r = calculate_complexity m (volume r) (area r) (dimensions r)"
    by blast
  have "\<forall>s. unrounded_score m (volume r) (area r) (dimensions r) = Inr s \<longrightarrow>
            difficulty_rating (complexity_metrics r) = get_difficulty_rating s
            \<and> complexity_score (complexity_metrics r) = round_nd s 2"
    using calculate_complexity_unrounded unfolding cm by blast
  moreover have "complexity_score (complexity_metrics r) \<noteq> 25
          \<and> complexity_score (complexity_metrics r) \<noteq> 50
          \<and> complexity_score (complexity_metrics r) \<noteq> 75 \<longrightarrow>
            difficulty_rating (complexity_metrics r) =
              get_difficulty_rating (complexity_score (complexity_metrics r))"
    using calculate_complexity_rating unfolding cm by blast
  moreover have "\<forall>s. (s < 25 \<longrightarrow> get_difficulty_rating s = Baixa)
            \<and> (25 \<le> s \<and> s < 50 \<longrightarrow> get_difficulty_rating s = Media)
            \<and> (50 \<le> s \<and> s < 75 \<longrightarrow> get_difficulty_rating s = Alta)
            \<and> (75 \<le> s \<longrightarrow> get_difficulty_rating s = Muito_Alta)"
    by (simp add: get_difficulty_rating_def)
  moreover have "get_difficulty_rating 25 = Media \<and> get_difficulty_rating 50 = Alta
     \<and> get_difficulty_rating 75 = Muito_Alta"
    by (simp add: get_difficulty_rating_def)
  ultimately show ?thesis
    by blast
qed

theorem difficulty_rating_thresholds_witness:
  "\<not> isl (analyze brick)
   \<and> unrounded_score brick (volume (projr (analyze brick))) (area (projr (analyze brick)))
       (dimensions (projr (analyze brick))) = Inr (48482438599 / 722502000)
   \<and> complexity_score (complexity_metrics (projr (analyze brick))) = 671 / 10
   \<and> difficulty_rating (complexity_metrics (projr (analyze brick))) = Alta
   \<and> difficulty_rating (complexity_metrics (projr (analyze brick))) =
       get_difficulty_rating (complexity_score (complexity_metrics (projr (analyze brick))))
   \<and> get_difficulty_rating 10 = Baixa \<and> get_difficulty_rating 30 = Media
   \<and> get_difficulty_rating 60 = Alta \<and> get_difficulty_rating 90 = Muito_Alta"
proof -
  have a: "analyze brick = Inr (projr (analyze brick))"
    using analyze_fails_iff [of brick] by (simp add: brick_data)
  have u: "unrounded_score brick (volume (projr (analyze brick)))
       (area (projr (analyze brick))) (dimensions (projr (analyze brick))) =
     Inr (48482438599 / 722502000)"
    using analyze_cases [OF a] by (auto simp: brick_data brick_unrounded)
  have g: "get_difficulty_rating (48482438599 / 722502000) = Alta"
    by (simp add: get_difficulty_rating_def)
  from difficulty_rating_thresholds [OF a] u
  have "difficulty_rating (complexity_metrics (projr (analyze brick))) =
          get_difficulty_rating (48482438599 / 722502000)
        \<and> complexity_score (complexity_metrics (projr (analyze brick))) =
          round_nd (48482438599 / 722502000) 2"
    by blast
  then have c: "complexity_score (complexity_metrics (projr (analyze brick))) = 671 / 10"
    and d: "difficulty_rating (complexity_metrics (projr (analyze brick))) = Alta"
    using g round_brick_score by simp_all
  have "\<not> isl (analyze brick)"
    using analyze_fails_iff [of brick] by (simp add: brick_data)
  then show ?thesis
    using u by (simp add: c d get_difficulty_rating_def)
qed

text \<open>
  That a reported score of exactly 75 is rated \<open>Muito Alta\<close> does not hold: the plate
  has the score 74.9978..., which is reported as 75 and rated \<open>Alta\<close>.
\<close>

theorem reported_75_rated_alta_counterexample:
  "\<not> isl (analyze plate)
   \<and> complexity_score (complexity_metrics (projr (analyze plate))) = 75
   \<and> difficulty_rating (complexity_metrics (projr (analyze plate))) = Alta
   \<and> get_difficulty_rating 75 = Muito_Alta"
  using calculate_complexity_unrounded [OF plate_unrounded]
  by (simp add: analyze_bounds [OF plate_data(1)] plate_data round_plate_score
      get_difficulty_rating_def)

end
